theory Spec2Isabelle
  imports Main "HOL-Library.Word"
begin

section \<open>JavaScript values\<close>

text \<open>
  The proxy of \<^verbatim>\<open>src/frontend/server.js\<close> is dynamically typed: every field of
  an upstream record, of a parsed calendar component and of the query string is an
  arbitrary JavaScript value. A string is a sequence of 16-bit code units; string
  literals of the source are ASCII and are embedded with \<open>lit\<close>.
\<close>

type_synonym jsstring = "16 word list"

definition lit :: "string \<Rightarrow> jsstring" where
  "lit s = map of_char s"

text \<open>
  A number is an IEEE-754 double, kept as its 64 bits. The program never computes
  with numbers: it tests their truthiness and converts them to strings. A
  \<open>Date\<close> object is kept as its time value (milliseconds since the epoch), \<open>None\<close>
  for an invalid date. An object is the list of its own properties in
  \<^verbatim>\<open>Object.keys\<close> order; the keys of an object are distinct, and a read takes
  the first entry of a key.
\<close>

datatype jsval =
    JUndefined
  | JNull
  | JBool bool
  | JNum "64 word"
  | JStr jsstring
  | JDate "int option"
  | JArr "jsval list"
  | JObj "(jsstring \<times> jsval) list"

datatype exn =
    TypeError
  | RangeError
  | URIError
  | Rejected jsval

definition nullish :: "jsval \<Rightarrow> bool" where
  "nullish v = (v = JUndefined \<or> v = JNull)"

text \<open>
  \<open>ToBoolean\<close>: \<open>undefined\<close>, \<open>null\<close>, \<open>false\<close>, \<open>+0\<close>, \<open>-0\<close>, \<open>NaN\<close> and the empty
  string are falsy, everything else is truthy. Dropping the sign bit, a double is a
  zero when the remaining 63 bits are zero and a NaN when they exceed the bits of
  infinity.
\<close>

definition num_falsy :: "64 word \<Rightarrow> bool" where
  "num_falsy w =
     (let m = and w 0x7FFFFFFFFFFFFFFF in m = 0 \<or> 0x7FF0000000000000 < m)"

fun truthy :: "jsval \<Rightarrow> bool" where
  "truthy JUndefined = False"
| "truthy JNull = False"
| "truthy (JBool b) = b"
| "truthy (JNum w) = (\<not> num_falsy w)"
| "truthy (JStr s) = (s \<noteq> [])"
| "truthy (JDate t) = True"
| "truthy (JArr xs) = True"
| "truthy (JObj ps) = True"

text \<open>The operators \<^verbatim>\<open>a || b\<close> and \<^verbatim>\<open>a && b\<close> on operands without effects.\<close>

definition lor :: "jsval \<Rightarrow> jsval \<Rightarrow> jsval" where
  "lor a b = (if truthy a then a else b)"

definition land :: "jsval \<Rightarrow> jsval \<Rightarrow> jsval" where
  "land a b = (if truthy a then b else a)"

text \<open>
  \<open>ownprop v k\<close> is the property read \<^verbatim>\<open>v.k\<close> on a value that is neither
  \<open>undefined\<close> nor \<open>null\<close>, for the property names this program reads as data
  (none of them is an index, \<^verbatim>\<open>length\<close> or a property of a built-in prototype):
  an object yields its own property, anything else \<open>undefined\<close>. The read on
  \<open>undefined\<close> or \<open>null\<close> throws; \<open>getprop\<close> is the unguarded read \<^verbatim>\<open>v.k\<close>
  and \<open>optprop\<close> the optional chain \<^verbatim>\<open>v?.k\<close>.
\<close>

fun ownprop :: "jsval \<Rightarrow> string \<Rightarrow> jsval" where
  "ownprop (JObj ps) k = (case map_of ps (lit k) of None \<Rightarrow> JUndefined | Some v \<Rightarrow> v)"
| "ownprop v k = JUndefined"

definition getprop :: "jsval \<Rightarrow> string \<Rightarrow> exn + jsval" where
  "getprop v k = (if nullish v then Inl TypeError else Inr (ownprop v k))"

definition optprop :: "jsval \<Rightarrow> string \<Rightarrow> jsval" where
  "optprop v k = (if nullish v then JUndefined else ownprop v k)"

section \<open>The canonical event and the normalizer\<close>

text \<open>
  The object literal returned by \<^verbatim>\<open>normalizeEvent\<close>. The fields carry the
  prefixes \<open>ev_\<close>, \<open>org_\<close>, \<open>src_\<close> and \<open>reg_\<close> because \<open>id\<close>, \<open>end\<close>, \<open>open\<close>
  and \<open>name\<close> are taken.
\<close>

record organizer =
  org_name :: jsval
  org_type :: jsval
  org_verified :: bool

record source =
  src_name :: jsval

record registration =
  reg_open :: bool

record canonical_event =
  ev_id :: jsval
  ev_title :: jsval
  ev_description :: jsval
  ev_start :: jsval
  ev_end :: jsval
  ev_venue :: jsval
  ev_organizer :: organizer
  ev_source :: source
  ev_tags :: "jsval list"
  ev_external :: jsval
  ev_registration :: registration

text \<open>
  \<^verbatim>\<open>function normalizeEvent({ id, title, ..., sourceName, external=true })\<close>:
  destructuring \<open>undefined\<close> or \<open>null\<close> throws a \<open>TypeError\<close>; the default of
  \<open>external\<close> applies when the property is \<open>undefined\<close>.
\<close>

definition normalizeEvent :: "jsval \<Rightarrow> exn + canonical_event" where
  "normalizeEvent arg =
     (if nullish arg then Inl TypeError
      else
        let id = ownprop arg ''id'';
            title = ownprop arg ''title'';
            description = ownprop arg ''description'';
            start = ownprop arg ''start'';
            end = ownprop arg ''end'';
            venue = ownprop arg ''venue'';
            organizerName = ownprop arg ''organizerName'';
            organizerType = ownprop arg ''organizerType'';
            sourceName = ownprop arg ''sourceName'';
            external = (case ownprop arg ''external'' of JUndefined \<Rightarrow> JBool True | v \<Rightarrow> v)
        in Inr \<lparr>
          ev_id = id,
          ev_title = lor title (JStr (lit '''')),
          ev_description = lor description (JStr (lit '''')),
          ev_start = lor start (JStr (lit '''')),
          ev_end = lor end (JStr (lit '''')),
          ev_venue = lor venue (JStr (lit '''')),
          ev_organizer = \<lparr>
            org_name = lor (lor organizerName sourceName) (JStr (lit ''Unknown'')),
            org_type = lor organizerType (JStr (lit ''other'')),
            org_verified = (organizerType = JStr (lit ''government'')
                            \<or> organizerType = JStr (lit ''company'')) \<rparr>,
          ev_source = \<lparr> src_name = lor sourceName (JStr (lit ''external'')) \<rparr>,
          ev_tags = [],
          ev_external = external,
          ev_registration = \<lparr> reg_open = True \<rparr> \<rparr>)"

section \<open>Built-in conversions\<close>

text \<open>
  What the JavaScript runtime supplies and this repository does not define: the
  decimal rendering of a number, the two renderings of a \<open>Date\<close> and the
  percent-encoding of \<^verbatim>\<open>encodeURIComponent\<close> (\<open>None\<close> where it throws a
  \<open>URIError\<close>).
\<close>

record runtime =
  numberToString :: "64 word \<Rightarrow> jsstring"
  dateToString :: "int option \<Rightarrow> jsstring"
  dateToISOString :: "int \<Rightarrow> jsstring"
  uriEncode :: "jsstring \<Rightarrow> jsstring option"

text \<open>
  \<open>ToString\<close>, as a template literal \<^verbatim>\<open>`${v}`\<close> applies it. An array is the
  join of its elements with commas, \<open>undefined\<close> and \<open>null\<close> elements giving the
  empty string. A plain object gives \<^verbatim>\<open>[object Object]\<close>; no value of \<open>jsval\<close> is
  callable, so an object with an own property \<^verbatim>\<open>toString\<close> has no usable
  conversion and a \<open>TypeError\<close> is thrown.
\<close>

fun ToString :: "runtime \<Rightarrow> jsval \<Rightarrow> exn + jsstring"
  and join :: "runtime \<Rightarrow> jsval list \<Rightarrow> exn + jsstring" where
  "ToString rt JUndefined = Inr (lit ''undefined'')"
| "ToString rt JNull = Inr (lit ''null'')"
| "ToString rt (JBool b) = Inr (lit (if b then ''true'' else ''false''))"
| "ToString rt (JNum w) = Inr (numberToString rt w)"
| "ToString rt (JStr s) = Inr s"
| "ToString rt (JDate t) = Inr (dateToString rt t)"
| "ToString rt (JArr xs) = join rt xs"
| "ToString rt (JObj ps) =
     (if lit ''toString'' \<in> set (map fst ps) then Inl TypeError
      else Inr (lit ''[object Object]''))"
| "join rt [] = Inr (lit '''')"
| "join rt (x # xs) =
     (case (if nullish x then Inr (lit '''') else ToString rt x) of
        Inl e \<Rightarrow> Inl e
      | Inr s \<Rightarrow>
          (if xs = [] then Inr s
           else case join rt xs of
                  Inl e \<Rightarrow> Inl e
                | Inr r \<Rightarrow> Inr (s @ lit '','' @ r)))"

text \<open>The method call \<^verbatim>\<open>v.toString()\<close>: it throws on \<open>undefined\<close> and \<open>null\<close>.\<close>

definition toString :: "runtime \<Rightarrow> jsval \<Rightarrow> exn + jsstring" where
  "toString rt v = (if nullish v then Inl TypeError else ToString rt v)"

text \<open>
  The method call \<^verbatim>\<open>v.toISOString()\<close>: only a \<open>Date\<close> has the method, and it
  throws a \<open>RangeError\<close> on an invalid date.
\<close>

fun toISOString :: "runtime \<Rightarrow> jsval \<Rightarrow> exn + jsstring" where
  "toISOString rt (JDate (Some t)) = Inr (dateToISOString rt t)"
| "toISOString rt (JDate None) = Inl RangeError"
| "toISOString rt v = Inl TypeError"

definition encodeURIComponent :: "runtime \<Rightarrow> jsval \<Rightarrow> exn + jsstring" where
  "encodeURIComponent rt v =
     (case ToString rt v of
        Inl e \<Rightarrow> Inl e
      | Inr s \<Rightarrow> (case uriEncode rt s of None \<Rightarrow> Inl URIError | Some t \<Rightarrow> Inr t))"

text \<open>\<^verbatim>\<open>xs.map(f)\<close> with a callback that may throw: the first exception aborts the map.\<close>

fun Array_map :: "('a \<Rightarrow> exn + 'b) \<Rightarrow> 'a list \<Rightarrow> exn + 'b list" where
  "Array_map f [] = Inr []"
| "Array_map f (x # xs) =
     (case f x of
        Inl e \<Rightarrow> Inl e
      | Inr y \<Rightarrow> (case Array_map f xs of Inl e \<Rightarrow> Inl e | Inr ys \<Rightarrow> Inr (y # ys)))"

section \<open>The three adapters\<close>

text \<open>
  The callback of \<^verbatim>\<open>(json.events || []).map(ev => ...)\<close>. The fields of the object
  literal are evaluated in order; \<^verbatim>\<open>ev.id\<close> comes first and throws when \<open>ev\<close> is
  \<open>undefined\<close> or \<open>null\<close>, so the later reads of \<open>ev\<close> are on a value that has
  properties.
\<close>

definition eventbrite_adapter :: "runtime \<Rightarrow> jsval \<Rightarrow> exn + canonical_event" where
  "eventbrite_adapter rt ev =
     (case getprop ev ''id'' of
        Inl e \<Rightarrow> Inl e
      | Inr rawId \<Rightarrow>
     (case ToString rt rawId of
        Inl e \<Rightarrow> Inl e
      | Inr idText \<Rightarrow>
          normalizeEvent (JObj [
            (lit ''id'', JStr (lit ''eventbrite_'' @ idText)),
            (lit ''title'', optprop (ownprop ev ''name'') ''text''),
            (lit ''description'', optprop (ownprop ev ''description'') ''text''),
            (lit ''start'', lor (optprop (ownprop ev ''start'') ''utc'')
                                (optprop (ownprop ev ''start'') ''local'')),
            (lit ''end'', lor (optprop (ownprop ev ''end'') ''utc'')
                              (optprop (ownprop ev ''end'') ''local'')),
            (lit ''venue'',
               lor (optprop (optprop (ownprop ev ''venue'') ''address'')
                      ''localized_address_display'')
                   (optprop (ownprop ev ''venue'') ''name'')),
            (lit ''organizerName'', optprop (ownprop ev ''organizer'') ''name''),
            (lit ''organizerType'', JStr (lit ''company'')),
            (lit ''sourceName'', JStr (lit ''Eventbrite'')),
            (lit ''external'', JBool True)])))"

text \<open>The callback of \<^verbatim>\<open>(json.items || []).map(it => normalizeEvent({...}))\<close>.\<close>

definition gcal_adapter :: "runtime \<Rightarrow> jsval \<Rightarrow> exn + canonical_event" where
  "gcal_adapter rt it =
     (case getprop it ''id'' of
        Inl e \<Rightarrow> Inl e
      | Inr rawId \<Rightarrow>
     (case ToString rt rawId of
        Inl e \<Rightarrow> Inl e
      | Inr idText \<Rightarrow>
          normalizeEvent (JObj [
            (lit ''id'', JStr (lit ''gcal_'' @ idText)),
            (lit ''title'', ownprop it ''summary''),
            (lit ''description'', lor (ownprop it ''description'') (JStr (lit ''''))),
            (lit ''start'',
               land (ownprop it ''start'')
                 (lor (ownprop (ownprop it ''start'') ''dateTime'')
                      (ownprop (ownprop it ''start'') ''date''))),
            (lit ''end'',
               land (ownprop it ''end'')
                 (lor (ownprop (ownprop it ''end'') ''dateTime'')
                      (ownprop (ownprop it ''end'') ''date''))),
            (lit ''venue'', lor (ownprop it ''location'') (JStr (lit ''''))),
            (lit ''organizerName'',
               lor (lor (land (ownprop it ''organizer'')
                           (ownprop (ownprop it ''organizer'') ''displayName''))
                        (optprop (ownprop it ''organizer'') ''email''))
                   (JStr (lit ''Google Calendar''))),
            (lit ''organizerType'', JStr (lit ''other'')),
            (lit ''sourceName'', JStr (lit ''Google Calendar'')),
            (lit ''external'', JBool True)])))"

text \<open>
  The argument of \<^verbatim>\<open>events.push(normalizeEvent({...}))\<close> for a component \<open>ev\<close>
  that passed the test \<^verbatim>\<open>ev && ev.type === 'VEVENT'\<close>. The id is evaluated first,
  then \<open>start\<close>, then \<open>end\<close>; \<^verbatim>\<open>slice(0,40)\<close> keeps the first 40 code units.
\<close>

definition ics_adapter :: "runtime \<Rightarrow> jsval \<Rightarrow> exn + canonical_event" where
  "ics_adapter rt ev =
     (case toString rt (lor (lor (ownprop ev ''uid'') (ownprop ev ''summary'')) (JStr (lit '''')))
      of
        Inl e \<Rightarrow> Inl e
      | Inr idText \<Rightarrow>
     (case (if truthy (ownprop ev ''start'') then toISOString rt (ownprop ev ''start'')
            else Inr (lit '''')) of
        Inl e \<Rightarrow> Inl e
      | Inr startText \<Rightarrow>
     (case (if truthy (ownprop ev ''end'') then toISOString rt (ownprop ev ''end'')
            else Inr (lit '''')) of
        Inl e \<Rightarrow> Inl e
      | Inr endText \<Rightarrow>
          normalizeEvent (JObj [
            (lit ''id'', JStr (lit ''ics_'' @ take 40 idText)),
            (lit ''title'', lor (ownprop ev ''summary'') (JStr (lit ''''))),
            (lit ''description'', lor (ownprop ev ''description'') (JStr (lit ''''))),
            (lit ''start'', JStr startText),
            (lit ''end'', JStr endText),
            (lit ''venue'', lor (ownprop ev ''location'') (JStr (lit ''''))),
            (lit ''organizerName'', lor (ownprop ev ''organizer'') (JStr (lit ''''))),
            (lit ''organizerType'', JStr (lit ''other'')),
            (lit ''sourceName'', JStr (lit ''ICS'')),
            (lit ''external'', JBool True)]))))"

section \<open>The request handlers\<close>

text \<open>
  The process environment holds the two credentials, each a string or unset; the
  constants of the source replace an unset or empty value by the empty string
  (\<^verbatim>\<open>process.env.EVENTBRITE_TOKEN || ''\<close>).
\<close>

record process_env =
  env_EVENTBRITE_TOKEN :: "jsstring option"
  env_GOOGLE_API_KEY :: "jsstring option"

definition EVENTBRITE_TOKEN :: "process_env \<Rightarrow> jsstring" where
  "EVENTBRITE_TOKEN env =
     (case env_EVENTBRITE_TOKEN env of
        None \<Rightarrow> lit ''''
      | Some s \<Rightarrow> if s \<noteq> [] then s else lit '''')"

definition GOOGLE_API_KEY :: "process_env \<Rightarrow> jsstring" where
  "GOOGLE_API_KEY env =
     (case env_GOOGLE_API_KEY env of
        None \<Rightarrow> lit ''''
      | Some s \<Rightarrow> if s \<noteq> [] then s else lit '''')"

text \<open>
  The outside world, as the handlers see it. \<open>fetch_json url headers\<close> is the outcome
  of \<^verbatim>\<open>fetch(url, {headers})\<close> followed by \<^verbatim>\<open>r.json()\<close>: the parsed JSON value,
  or the exception of a failed fetch or parse. \<open>ical_fromURL\<close> is
  \<^verbatim>\<open>ical.async.fromURL\<close>: the parsed document, an object of components, or an
  exception.
\<close>

record world =
  fetch_json :: "jsstring \<Rightarrow> (jsstring \<times> jsstring) list \<Rightarrow> exn + jsval"
  ical_fromURL :: "jsval \<Rightarrow> exn + (jsstring \<times> jsval) list"

text \<open>\<^verbatim>\<open>req.query\<close> is the object of the parsed query string.\<close>

record request =
  query :: "(jsstring \<times> jsval) list"

datatype outbound =
    Fetch jsstring "(jsstring \<times> jsstring) list"
  | IcalFromURL jsval

text \<open>
  A JSON body is \<^verbatim>\<open>{ error }\<close>, \<^verbatim>\<open>{ error, details: err.message }\<close> (kept as
  the exception whose message is sent) or \<^verbatim>\<open>{ events }\<close>. An exception outside
  the \<^verbatim>\<open>try\<close> block rejects the handler's promise and no response is sent.
\<close>

datatype body =
    ErrorBody jsstring "exn option"
  | EventsBody "canonical_event list"

datatype outcome =
    Responded nat body
  | Unhandled exn

record result =
  calls :: "outbound list"
  outcome :: outcome

definition eventbrite_url :: "runtime \<Rightarrow> jsval \<Rightarrow> jsval \<Rightarrow> exn + jsstring" where
  "eventbrite_url rt q page =
     (case encodeURIComponent rt q of
        Inl e \<Rightarrow> Inl e
      | Inr qText \<Rightarrow>
     (case ToString rt page of
        Inl e \<Rightarrow> Inl e
      | Inr pageText \<Rightarrow>
          Inr (lit ''https://www.eventbriteapi.com/v3/events/search/?q='' @ qText
               @ lit ''&expand=venue,organizer&page='' @ pageText)))"

text \<open>
  The body of the \<^verbatim>\<open>try\<close> block: \<^verbatim>\<open>json.events\<close> throws on a \<open>null\<close> body, and
  \<^verbatim>\<open>.map\<close> exists on arrays only.
\<close>

definition eventbrite_events :: "runtime \<Rightarrow> jsval \<Rightarrow> exn + canonical_event list" where
  "eventbrite_events rt json =
     (case getprop json ''events'' of
        Inl e \<Rightarrow> Inl e
      | Inr evs \<Rightarrow>
          (case lor evs (JArr []) of
             JArr xs \<Rightarrow> Array_map (eventbrite_adapter rt) xs
           | _ \<Rightarrow> Inl TypeError))"

definition api_eventbrite :: "runtime \<Rightarrow> world \<Rightarrow> process_env \<Rightarrow> request \<Rightarrow> result" where
  "api_eventbrite rt w env req =
     (if EVENTBRITE_TOKEN env = [] then
        \<lparr> calls = [],
          outcome = Responded 500 (ErrorBody (lit ''Missing EVENTBRITE_TOKEN env var'') None) \<rparr>
      else
        let q = lor (ownprop (JObj (query req)) ''q'') (JStr (lit ''''));
            page = lor (ownprop (JObj (query req)) ''page'') (JNum 0x3FF0000000000000)
        in case eventbrite_url rt q page of
             Inl e \<Rightarrow> \<lparr> calls = [], outcome = Unhandled e \<rparr>
           | Inr url \<Rightarrow>
               let headers = [(lit ''Authorization'', lit ''Bearer '' @ EVENTBRITE_TOKEN env)]
               in \<lparr> calls = [Fetch url headers],
                    outcome =
                      (case (case fetch_json w url headers of
                               Inl e \<Rightarrow> Inl e
                             | Inr json \<Rightarrow> eventbrite_events rt json) of
                         Inl err \<Rightarrow>
                           Responded 500 (ErrorBody (lit ''Eventbrite fetch failed'') (Some err))
                       | Inr events \<Rightarrow> Responded 200 (EventsBody events)) \<rparr>)"

definition gcal_url :: "runtime \<Rightarrow> process_env \<Rightarrow> jsval \<Rightarrow> exn + jsstring" where
  "gcal_url rt env calendarId =
     (case encodeURIComponent rt calendarId of
        Inl e \<Rightarrow> Inl e
      | Inr idText \<Rightarrow>
          Inr (lit ''https://www.googleapis.com/calendar/v3/calendars/'' @ idText
               @ lit ''/events?key='' @ GOOGLE_API_KEY env
               @ lit ''&singleEvents=true&orderBy=startTime''))"

definition gcal_events :: "runtime \<Rightarrow> jsval \<Rightarrow> exn + canonical_event list" where
  "gcal_events rt json =
     (case getprop json ''items'' of
        Inl e \<Rightarrow> Inl e
      | Inr items \<Rightarrow>
          (case lor items (JArr []) of
             JArr xs \<Rightarrow> Array_map (gcal_adapter rt) xs
           | _ \<Rightarrow> Inl TypeError))"

definition api_google_calendar ::
  "runtime \<Rightarrow> world \<Rightarrow> process_env \<Rightarrow> request \<Rightarrow> result" where
  "api_google_calendar rt w env req =
     (let calendarId = ownprop (JObj (query req)) ''calendarId''
      in if \<not> truthy calendarId then
           \<lparr> calls = [],
             outcome = Responded 400 (ErrorBody (lit ''calendarId required'') None) \<rparr>
         else if GOOGLE_API_KEY env = [] then
           \<lparr> calls = [],
             outcome = Responded 500 (ErrorBody (lit ''Missing GOOGLE_API_KEY env var'') None) \<rparr>
         else
           case gcal_url rt env calendarId of
             Inl e \<Rightarrow> \<lparr> calls = [], outcome = Unhandled e \<rparr>
           | Inr url \<Rightarrow>
               \<lparr> calls = [Fetch url []],
                 outcome =
                   (case (case fetch_json w url [] of
                            Inl e \<Rightarrow> Inl e
                          | Inr json \<Rightarrow> gcal_events rt json) of
                      Inl err \<Rightarrow>
                        Responded 500
                          (ErrorBody (lit ''Google Calendar fetch failed'') (Some err))
                    | Inr events \<Rightarrow> Responded 200 (EventsBody events)) \<rparr>)"

text \<open>
  The loop \<^verbatim>\<open>for (const k of Object.keys(parsed))\<close>: \<open>ks\<close> are the keys still to
  visit and \<open>events\<close> the array built so far. An exception of the adapter leaves
  the loop.
\<close>

definition is_VEVENT :: "jsval \<Rightarrow> bool" where
  "is_VEVENT ev = (truthy ev \<and> ownprop ev ''type'' = JStr (lit ''VEVENT''))"

fun ics_loop ::
  "runtime \<Rightarrow> (jsstring \<times> jsval) list \<Rightarrow> jsstring list \<Rightarrow> canonical_event list
     \<Rightarrow> exn + canonical_event list" where
  "ics_loop rt parsed [] events = Inr events"
| "ics_loop rt parsed (k # ks) events =
     (let ev = (case map_of parsed k of None \<Rightarrow> JUndefined | Some v \<Rightarrow> v)
      in if is_VEVENT ev then
           (case ics_adapter rt ev of
              Inl e \<Rightarrow> Inl e
            | Inr c \<Rightarrow> ics_loop rt parsed ks (events @ [c]))
         else ics_loop rt parsed ks events)"

definition ics_events ::
  "runtime \<Rightarrow> (jsstring \<times> jsval) list \<Rightarrow> exn + canonical_event list" where
  "ics_events rt parsed = ics_loop rt parsed (map fst parsed) []"

definition api_fetch_ics :: "runtime \<Rightarrow> world \<Rightarrow> request \<Rightarrow> result" where
  "api_fetch_ics rt w req =
     (let url = ownprop (JObj (query req)) ''url''
      in if \<not> truthy url then
           \<lparr> calls = [],
             outcome = Responded 400 (ErrorBody (lit ''url query param required'') None) \<rparr>
         else
           \<lparr> calls = [IcalFromURL url],
             outcome =
               (case (case ical_fromURL w url of
                        Inl e \<Rightarrow> Inl e
                      | Inr parsed \<Rightarrow> ics_events rt parsed) of
                  Inl err \<Rightarrow>
                    Responded 500 (ErrorBody (lit ''Failed to fetch/parse ICS'') (Some err))
                | Inr events \<Rightarrow> Responded 200 (EventsBody events)) \<rparr>)"

section \<open>Vocabulary of the claims\<close>

text \<open>
  The types of the canonical event's fields, and what it means for a field of the
  normalizer's argument to be absent, or to be text where it is supplied.
\<close>

definition is_string :: "jsval \<Rightarrow> bool" where
  "is_string v = (case v of JStr s \<Rightarrow> True | _ \<Rightarrow> False)"

definition is_bool :: "jsval \<Rightarrow> bool" where
  "is_bool v = (case v of JBool b \<Rightarrow> True | _ \<Rightarrow> False)"

definition absent :: "(jsstring \<times> jsval) list \<Rightarrow> string \<Rightarrow> bool" where
  "absent ps k = (map_of ps (lit k) = None)"

definition text_or_absent :: "(jsstring \<times> jsval) list \<Rightarrow> string \<Rightarrow> bool" where
  "text_or_absent ps k = (absent ps k \<or> is_string (ownprop (JObj ps) k))"

text \<open>An id with a given ASCII prefix, and a string that is not empty.\<close>

definition starts_with :: "string \<Rightarrow> jsval \<Rightarrow> bool" where
  "starts_with p v = (case v of JStr s \<Rightarrow> take (length p) s = lit p | _ \<Rightarrow> False)"

definition nonempty_string :: "jsval \<Rightarrow> bool" where
  "nonempty_string v = (case v of JStr s \<Rightarrow> s \<noteq> [] | _ \<Rightarrow> False)"

text \<open>
  The components of a parsed document, in \<^verbatim>\<open>Object.keys\<close> order, and the components
  that the ICS adapter can convert: the id source has a string conversion, and
  \<open>start\<close> and \<open>end\<close> are each falsy or a valid \<open>Date\<close>.
\<close>

definition date_or_falsy :: "jsval \<Rightarrow> bool" where
  "date_or_falsy v = (case v of JDate (Some t) \<Rightarrow> True | _ \<Rightarrow> \<not> truthy v)"

definition has_text :: "runtime \<Rightarrow> jsval \<Rightarrow> bool" where
  "has_text rt v = (case toString rt v of Inl e \<Rightarrow> False | Inr s \<Rightarrow> True)"

definition ics_convertible :: "runtime \<Rightarrow> jsval \<Rightarrow> bool" where
  "ics_convertible rt ev =
     (has_text rt (lor (lor (ownprop ev ''uid'') (ownprop ev ''summary'')) (JStr (lit '''')))
      \<and> date_or_falsy (ownprop ev ''start'')
      \<and> date_or_falsy (ownprop ev ''end''))"

definition components :: "(jsstring \<times> jsval) list \<Rightarrow> jsval list" where
  "components parsed = map snd parsed"

text \<open>
  A runtime and a world on which the theorems are evaluated at concrete inputs. The
  renderings are constant: they are the true ones for the number zero, for an
  invalid date, for the date of time value zero and for strings of unreserved
  characters, and the inputs evaluated below contain nothing else.
\<close>

definition sample_runtime :: runtime where
  "sample_runtime = \<lparr>
     numberToString = (\<lambda>w. lit ''0''),
     dateToString = (\<lambda>t. lit ''Invalid Date''),
     dateToISOString = (\<lambda>t. lit ''1970-01-01T00:00:00.000Z''),
     uriEncode = Some \<rparr>"

definition sample_world :: world where
  "sample_world = \<lparr>
     fetch_json = (\<lambda>url headers. Inr (JObj [])),
     ical_fromURL = (\<lambda>url. Inr []) \<rparr>"

text \<open>
  An Eventbrite record with both start timestamps and a local end only, and a
  calendar component whose uid has 57 code units.
\<close>

definition sample_eventbrite_record :: jsval where
  "sample_eventbrite_record = JObj [
     (lit ''id'', JStr (lit ''123'')),
     (lit ''start'', JObj [(lit ''utc'', JStr (lit ''2026-01-01T10:00:00Z'')),
                           (lit ''local'', JStr (lit ''2026-01-01T11:00:00''))]),
     (lit ''end'', JObj [(lit ''local'', JStr (lit ''2026-01-01T13:00:00''))])]"

definition sample_ics_component :: jsval where
  "sample_ics_component = JObj [
     (lit ''type'', JStr (lit ''VEVENT'')),
     (lit ''uid'', JStr (lit ''0123456789012345678901234567890123456789-tail@example.org'')),
     (lit ''summary'', JStr (lit ''Open day''))]"

text \<open>
  A world whose calendar fetch yields a given parsed document, a request for a feed,
  and two documents of one timezone component and one event component: in the
  first the event's start is a \<open>Date\<close>, in the second it is the text that the
  parser could not read as a date.
\<close>

definition world_serving :: "(jsstring \<times> jsval) list \<Rightarrow> world" where
  "world_serving parsed = \<lparr>
     fetch_json = (\<lambda>url headers. Inr (JObj [])),
     ical_fromURL = (\<lambda>url. Inr parsed) \<rparr>"

definition sample_ics_request :: request where
  "sample_ics_request = \<lparr> query = [(lit ''url'', JStr (lit ''https://example.org/feed.ics''))] \<rparr>"

definition sample_vevent :: jsval where
  "sample_vevent = JObj [
     (lit ''type'', JStr (lit ''VEVENT'')),
     (lit ''uid'', JStr (lit ''e1@example.org'')),
     (lit ''summary'', JStr (lit ''Open day'')),
     (lit ''start'', JDate (Some 0))]"

definition sample_ics_document :: "(jsstring \<times> jsval) list" where
  "sample_ics_document = [
     (lit ''tz1'', JObj [(lit ''type'', JStr (lit ''VTIMEZONE''))]),
     (lit ''e1@example.org'', sample_vevent)]"

definition unparsed_start_vevent :: jsval where
  "unparsed_start_vevent = JObj [
     (lit ''type'', JStr (lit ''VEVENT'')),
     (lit ''uid'', JStr (lit ''e2@example.org'')),
     (lit ''summary'', JStr (lit ''Open day'')),
     (lit ''start'', JStr (lit ''TBA''))]"

definition unparsed_start_document :: "(jsstring \<times> jsval) list" where
  "unparsed_start_document = [
     (lit ''tz1'', JObj [(lit ''type'', JStr (lit ''VTIMEZONE''))]),
     (lit ''e2@example.org'', unparsed_start_vevent)]"

section \<open>Facts about literals and values\<close>

lemma lit_Nil [simp]: "lit [] = []"
  by (simp add: lit_def)

lemma lit_Cons: "lit (c # cs) = of_char c # lit cs"
  by (simp add: lit_def)

lemma lit_append: "lit (a @ b) = lit a @ lit b"
  by (simp add: lit_def)

lemma length_lit [simp]: "length (lit s) = length s"
  by (simp add: lit_def)

lemma lit_eq_Nil [simp]: "lit s = [] \<longleftrightarrow> s = []"
  by (simp add: lit_def)

lemma Nil_eq_lit [simp]: "[] = lit s \<longleftrightarrow> s = []"
  by (simp add: lit_def)

lemma unit_of_char_eq: "(of_char c :: 16 word) = of_char d \<longleftrightarrow> c = d"
proof
  assume h: "(of_char c :: 16 word) = of_char d"
  have "unat (of_nat (of_char c) :: 16 word) = unat (of_nat (of_char d) :: 16 word)"
    using h by (simp only: of_nat_of_char)
  moreover have "(of_char c :: nat) < 2 ^ 16" "(of_char d :: nat) < 2 ^ 16"
    by (rule less_trans [OF nat_of_char_less_256], simp)+
  ultimately have "(of_char c :: nat) = of_char d"
    by (simp add: unat_of_nat take_bit_nat_eq_self)
  then show "c = d" by simp
qed simp

lemma lit_eq_iff [simp]: "lit a = lit b \<longleftrightarrow> a = b"
proof (induction a arbitrary: b)
  case Nil
  then show ?case by (auto simp: lit_def)
next
  case (Cons c cs)
  then show ?case by (cases b) (auto simp: lit_Cons unit_of_char_eq)
qed

lemma ownprop_absent: "absent ps k \<Longrightarrow> ownprop (JObj ps) k = JUndefined"
  by (simp add: absent_def)

lemma is_string_lor: "a = JUndefined \<or> is_string a \<Longrightarrow> is_string b \<Longrightarrow> is_string (lor a b)"
  by (auto simp: lor_def is_string_def)

lemma text_or_absent_cases:
  "text_or_absent ps k \<Longrightarrow> ownprop (JObj ps) k = JUndefined \<or> is_string (ownprop (JObj ps) k)"
  by (auto simp: text_or_absent_def absent_def)

lemma normalizeEvent_obj:
  "normalizeEvent (JObj ps) = Inr \<lparr>
     ev_id = ownprop (JObj ps) ''id'',
     ev_title = lor (ownprop (JObj ps) ''title'') (JStr (lit '''')),
     ev_description = lor (ownprop (JObj ps) ''description'') (JStr (lit '''')),
     ev_start = lor (ownprop (JObj ps) ''start'') (JStr (lit '''')),
     ev_end = lor (ownprop (JObj ps) ''end'') (JStr (lit '''')),
     ev_venue = lor (ownprop (JObj ps) ''venue'') (JStr (lit '''')),
     ev_organizer = \<lparr>
       org_name = lor (lor (ownprop (JObj ps) ''organizerName'') (ownprop (JObj ps) ''sourceName''))
                      (JStr (lit ''Unknown'')),
       org_type = lor (ownprop (JObj ps) ''organizerType'') (JStr (lit ''other'')),
       org_verified = (ownprop (JObj ps) ''organizerType'' = JStr (lit ''government'')
                       \<or> ownprop (JObj ps) ''organizerType'' = JStr (lit ''company'')) \<rparr>,
     ev_source = \<lparr> src_name = lor (ownprop (JObj ps) ''sourceName'') (JStr (lit ''external'')) \<rparr>,
     ev_tags = [],
     ev_external = (case ownprop (JObj ps) ''external'' of JUndefined \<Rightarrow> JBool True | v \<Rightarrow> v),
     ev_registration = \<lparr> reg_open = True \<rparr> \<rparr>"
  by (simp add: normalizeEvent_def nullish_def Let_def)

lemma normalizeEvent_fields:
  assumes "normalizeEvent (JObj ps) = Inr e"
  shows "ev_id e = ownprop (JObj ps) ''id''"
    and "ev_title e = lor (ownprop (JObj ps) ''title'') (JStr (lit ''''))"
    and "ev_description e = lor (ownprop (JObj ps) ''description'') (JStr (lit ''''))"
    and "ev_start e = lor (ownprop (JObj ps) ''start'') (JStr (lit ''''))"
    and "ev_end e = lor (ownprop (JObj ps) ''end'') (JStr (lit ''''))"
    and "ev_venue e = lor (ownprop (JObj ps) ''venue'') (JStr (lit ''''))"
    and "org_name (ev_organizer e) =
           lor (lor (ownprop (JObj ps) ''organizerName'') (ownprop (JObj ps) ''sourceName''))
               (JStr (lit ''Unknown''))"
    and "org_type (ev_organizer e) = lor (ownprop (JObj ps) ''organizerType'') (JStr (lit ''other''))"
    and "org_verified (ev_organizer e) =
           (ownprop (JObj ps) ''organizerType'' = JStr (lit ''government'')
            \<or> ownprop (JObj ps) ''organizerType'' = JStr (lit ''company''))"
    and "src_name (ev_source e) = lor (ownprop (JObj ps) ''sourceName'') (JStr (lit ''external''))"
    and "ev_tags e = []"
    and "ev_external e =
           (case ownprop (JObj ps) ''external'' of JUndefined \<Rightarrow> JBool True | v \<Rightarrow> v)"
    and "reg_open (ev_registration e) = True"
  using assms unfolding normalizeEvent_obj by auto

section \<open>The normalizer\<close>

text \<open>
  Claim C1. For every record passed to \<^verbatim>\<open>normalizeEvent\<close>, whatever subset of the
  ten optional fields it holds (the empty record included), the call returns an event
  and throws nothing. In that event \<open>title\<close>, \<open>description\<close>, \<open>start\<close>, \<open>end\<close> and
  \<open>venue\<close> are the supplied value when it is truthy and the empty string when it is
  falsy or absent; \<open>organizer.type\<close> defaults to \<^verbatim>\<open>"other"\<close> and \<open>source.name\<close> to
  \<^verbatim>\<open>"external"\<close> in the same way; \<open>tags\<close> is the empty list; \<open>registration.open\<close> is
  true; \<open>external\<close> is the supplied value and \<open>true\<close> when omitted. The event is
  well formed: each text field is a string whenever the field it comes from is a
  string or absent, and \<open>external\<close> is a boolean whenever it is a boolean or absent.
  The \<open>id\<close> is the supplied one, passed through as it is.
\<close>

theorem normalizeEvent_total:
  "\<exists>e. normalizeEvent (JObj ps) = Inr e
    \<and> ev_id e = ownprop (JObj ps) ''id''
    \<and> ev_title e = (if truthy (ownprop (JObj ps) ''title'')
                     then ownprop (JObj ps) ''title'' else JStr (lit ''''))
    \<and> ev_description e = (if truthy (ownprop (JObj ps) ''description'')
                     then ownprop (JObj ps) ''description'' else JStr (lit ''''))
    \<and> ev_start e = (if truthy (ownprop (JObj ps) ''start'')
                     then ownprop (JObj ps) ''start'' else JStr (lit ''''))
    \<and> ev_end e = (if truthy (ownprop (JObj ps) ''end'')
                     then ownprop (JObj ps) ''end'' else JStr (lit ''''))
    \<and> ev_venue e = (if truthy (ownprop (JObj ps) ''venue'')
                     then ownprop (JObj ps) ''venue'' else JStr (lit ''''))
    \<and> org_type (ev_organizer e) = (if truthy (ownprop (JObj ps) ''organizerType'')
                     then ownprop (JObj ps) ''organizerType'' else JStr (lit ''other''))
    \<and> src_name (ev_source e) = (if truthy (ownprop (JObj ps) ''sourceName'')
                     then ownprop (JObj ps) ''sourceName'' else JStr (lit ''external''))
    \<and> ev_tags e = []
    \<and> reg_open (ev_registration e)
    \<and> ev_external e = (if ownprop (JObj ps) ''external'' = JUndefined
                        then JBool True else ownprop (JObj ps) ''external'')
    \<and> (absent ps ''title'' \<longrightarrow> ev_title e = JStr (lit ''''))
    \<and> (absent ps ''description'' \<longrightarrow> ev_description e = JStr (lit ''''))
    \<and> (absent ps ''start'' \<longrightarrow> ev_start e = JStr (lit ''''))
    \<and> (absent ps ''end'' \<longrightarrow> ev_end e = JStr (lit ''''))
    \<and> (absent ps ''venue'' \<longrightarrow> ev_venue e = JStr (lit ''''))
    \<and> (absent ps ''organizerType'' \<longrightarrow> org_type (ev_organizer e) = JStr (lit ''other''))
    \<and> (absent ps ''sourceName'' \<longrightarrow> src_name (ev_source e) = JStr (lit ''external''))
    \<and> (absent ps ''external'' \<longrightarrow> ev_external e = JBool True)
    \<and> (text_or_absent ps ''title'' \<longrightarrow> is_string (ev_title e))
    \<and> (text_or_absent ps ''description'' \<longrightarrow> is_string (ev_description e))
    \<and> (text_or_absent ps ''start'' \<longrightarrow> is_string (ev_start e))
    \<and> (text_or_absent ps ''end'' \<longrightarrow> is_string (ev_end e))
    \<and> (text_or_absent ps ''venue'' \<longrightarrow> is_string (ev_venue e))
    \<and> (text_or_absent ps ''organizerName'' \<and> text_or_absent ps ''sourceName''
           \<longrightarrow> is_string (org_name (ev_organizer e)))
    \<and> (text_or_absent ps ''organizerType'' \<longrightarrow> is_string (org_type (ev_organizer e)))
    \<and> (text_or_absent ps ''sourceName'' \<longrightarrow> is_string (src_name (ev_source e)))
    \<and> (absent ps ''external'' \<or> is_bool (ownprop (JObj ps) ''external'')
           \<longrightarrow> is_bool (ev_external e))"
proof -
  obtain e where e: "normalizeEvent (JObj ps) = Inr e"
    by (simp add: normalizeEvent_obj)
  note eq = normalizeEvent_fields [OF e]
  have str: "is_string (JStr s)" for s by (simp add: is_string_def)
  have typed: "text_or_absent ps k \<Longrightarrow> is_string (lor (ownprop (JObj ps) k) (JStr s))" for k s
    by (rule is_string_lor [OF text_or_absent_cases str])
  have typed2: "text_or_absent ps k \<Longrightarrow> text_or_absent ps k' \<Longrightarrow>
      is_string (lor (lor (ownprop (JObj ps) k) (ownprop (JObj ps) k')) (JStr s))" for k k' s
    using text_or_absent_cases [of ps k] text_or_absent_cases [of ps k']
    by (auto simp: lor_def is_string_def)
  have ext: "absent ps ''external'' \<or> is_bool (ownprop (JObj ps) ''external'') \<Longrightarrow>
      is_bool (case ownprop (JObj ps) ''external'' of JUndefined \<Rightarrow> JBool True | v \<Rightarrow> v)"
    by (auto simp: is_bool_def absent_def split: jsval.splits)
  have ext2: "(case v of JUndefined \<Rightarrow> JBool True | v \<Rightarrow> v)
      = (if v = JUndefined then JBool True else v)" for v
    by (cases v) simp_all
  have ab: "absent ps k \<Longrightarrow> lor (ownprop (JObj ps) k) d = d" for k d
    by (simp add: absent_def lor_def)
  have ab2: "absent ps ''external'' \<Longrightarrow>
      (case ownprop (JObj ps) ''external'' of JUndefined \<Rightarrow> JBool True | v \<Rightarrow> v) = JBool True"
    by (simp add: absent_def)
  show ?thesis
    apply (rule exI [of _ e])
    apply (intro conjI impI)
    apply (simp_all only: e eq typed typed2 ext ab ab2)
    apply (simp_all add: lor_def ext2)
    done
qed


theorem normalizeEvent_total_witness:
  "absent [] ''title'' \<and> absent [] ''external'' \<and> text_or_absent [] ''sourceName''
   \<and> text_or_absent [] ''organizerName''
   \<and> (\<exists>e. normalizeEvent (JObj []) = Inr e
         \<and> ev_id e = JUndefined
         \<and> ev_title e = JStr (lit '''')
         \<and> ev_description e = JStr (lit '''')
         \<and> ev_start e = JStr (lit '''')
         \<and> ev_end e = JStr (lit '''')
         \<and> ev_venue e = JStr (lit '''')
         \<and> org_type (ev_organizer e) = JStr (lit ''other'')
         \<and> src_name (ev_source e) = JStr (lit ''external'')
         \<and> ev_tags e = []
         \<and> reg_open (ev_registration e)
         \<and> ev_external e = JBool True
         \<and> is_string (org_name (ev_organizer e))
         \<and> is_bool (ev_external e))"
  using normalizeEvent_total [of "[]"]
  by (simp add: absent_def text_or_absent_def) blast


text \<open>
  Claim C2. For every record passed to \<^verbatim>\<open>normalizeEvent\<close>, \<open>organizer.verified\<close> of
  the result is true if and only if the supplied \<open>organizerType\<close> is exactly the
  string \<^verbatim>\<open>"government"\<close> or exactly the string \<^verbatim>\<open>"company"\<close>; it is false for every
  other value, in particular when the field is absent and when it is the empty
  string.
\<close>

theorem organizer_verified_iff:
  "\<exists>e. normalizeEvent (JObj ps) = Inr e
     \<and> (org_verified (ev_organizer e) \<longleftrightarrow>
          ownprop (JObj ps) ''organizerType'' = JStr (lit ''government'')
          \<or> ownprop (JObj ps) ''organizerType'' = JStr (lit ''company''))
     \<and> (absent ps ''organizerType'' \<longrightarrow> \<not> org_verified (ev_organizer e))
     \<and> (ownprop (JObj ps) ''organizerType'' = JStr (lit '''') \<longrightarrow> \<not> org_verified (ev_organizer e))"
proof -
  obtain e where e: "normalizeEvent (JObj ps) = Inr e"
    by (simp add: normalizeEvent_obj)
  note v = normalizeEvent_fields(9) [OF e]
  have "absent ps ''organizerType'' \<longrightarrow> \<not> org_verified (ev_organizer e)"
    unfolding v by (simp add: absent_def)
  moreover have "ownprop (JObj ps) ''organizerType'' = JStr (lit '''')
      \<longrightarrow> \<not> org_verified (ev_organizer e)"
    unfolding v by simp
  ultimately show ?thesis
    using e v by blast
qed

theorem organizer_verified_iff_witness:
  "(\<exists>e. normalizeEvent (JObj [(lit ''organizerType'', JStr (lit ''government''))]) = Inr e
        \<and> org_verified (ev_organizer e))
   \<and> (\<exists>e. normalizeEvent (JObj [(lit ''organizerType'', JStr (lit ''Company''))]) = Inr e
        \<and> \<not> org_verified (ev_organizer e))
   \<and> absent [(lit ''title'', JStr (lit ''Fair''))] ''organizerType''
   \<and> (\<exists>e. normalizeEvent (JObj [(lit ''title'', JStr (lit ''Fair''))]) = Inr e
        \<and> \<not> org_verified (ev_organizer e))
   \<and> (\<exists>e. normalizeEvent (JObj [(lit ''organizerType'', JStr (lit ''''))]) = Inr e
        \<and> \<not> org_verified (ev_organizer e))"
  using organizer_verified_iff [of "[(lit ''organizerType'', JStr (lit ''government''))]"]
    organizer_verified_iff [of "[(lit ''organizerType'', JStr (lit ''Company''))]"]
    organizer_verified_iff [of "[(lit ''title'', JStr (lit ''Fair''))]"]
    organizer_verified_iff [of "[(lit ''organizerType'', JStr (lit ''''))]"]
  by (simp add: absent_def)

text \<open>
  Claim C3. For every record passed to \<^verbatim>\<open>normalizeEvent\<close>, \<open>organizer.name\<close> of the
  result is the first non-empty value of the chain \<open>organizerName\<close>, \<open>sourceName\<close>,
  \<^verbatim>\<open>"Unknown"\<close> (the first truthy one, which for a string means non-empty and for
  an absent field means skipped). With \<open>organizerName\<close> empty and \<open>sourceName\<close>
  \<^verbatim>\<open>"Foo"\<close> the name is \<^verbatim>\<open>"Foo"\<close>; with both empty it is \<^verbatim>\<open>"Unknown"\<close>.
\<close>

theorem organizer_name_fallback:
  "\<exists>e. normalizeEvent (JObj ps) = Inr e
     \<and> org_name (ev_organizer e) =
         (if truthy (ownprop (JObj ps) ''organizerName'') then ownprop (JObj ps) ''organizerName''
          else if truthy (ownprop (JObj ps) ''sourceName'') then ownprop (JObj ps) ''sourceName''
          else JStr (lit ''Unknown''))
     \<and> (\<forall>s. ownprop (JObj ps) ''organizerName'' = JStr s \<and> s \<noteq> []
            \<longrightarrow> org_name (ev_organizer e) = JStr s)
     \<and> (\<forall>s. (absent ps ''organizerName'' \<or> ownprop (JObj ps) ''organizerName'' = JStr [])
             \<and> ownprop (JObj ps) ''sourceName'' = JStr s \<and> s \<noteq> []
            \<longrightarrow> org_name (ev_organizer e) = JStr s)
     \<and> ((absent ps ''organizerName'' \<or> ownprop (JObj ps) ''organizerName'' = JStr [])
         \<and> (absent ps ''sourceName'' \<or> ownprop (JObj ps) ''sourceName'' = JStr [])
            \<longrightarrow> org_name (ev_organizer e) = JStr (lit ''Unknown''))
     \<and> (ownprop (JObj ps) ''organizerName'' = JStr (lit '''')
         \<and> ownprop (JObj ps) ''sourceName'' = JStr (lit ''Foo'')
            \<longrightarrow> org_name (ev_organizer e) = JStr (lit ''Foo''))"
proof -
  obtain e where e: "normalizeEvent (JObj ps) = Inr e"
    by (simp add: normalizeEvent_obj)
  note n = normalizeEvent_fields(7) [OF e]
  show ?thesis
    apply (rule exI [of _ e])
    apply (intro conjI impI allI)
    apply (simp_all only: e n)
    apply (auto simp: lor_def absent_def)
    done
qed

theorem organizer_name_fallback_witness:
  "(\<exists>e. normalizeEvent (JObj [(lit ''organizerName'', JStr (lit '''')),
                               (lit ''sourceName'', JStr (lit ''Foo''))]) = Inr e
        \<and> org_name (ev_organizer e) = JStr (lit ''Foo''))
   \<and> (\<exists>e. normalizeEvent (JObj [(lit ''organizerName'', JStr (lit '''')),
                               (lit ''sourceName'', JStr (lit ''''))]) = Inr e
        \<and> org_name (ev_organizer e) = JStr (lit ''Unknown''))
   \<and> absent [] ''organizerName'' \<and> absent [] ''sourceName''
   \<and> (\<exists>e. normalizeEvent (JObj []) = Inr e
        \<and> org_name (ev_organizer e) = JStr (lit ''Unknown''))
   \<and> (\<exists>e. normalizeEvent (JObj [(lit ''organizerName'', JStr (lit ''Ada'')),
                               (lit ''sourceName'', JStr (lit ''Foo''))]) = Inr e
        \<and> org_name (ev_organizer e) = JStr (lit ''Ada''))"
  using organizer_name_fallback [of "[(lit ''organizerName'', JStr (lit '''')),
                               (lit ''sourceName'', JStr (lit ''Foo''))]"]
    organizer_name_fallback [of "[(lit ''organizerName'', JStr (lit '''')),
                               (lit ''sourceName'', JStr (lit ''''))]"]
    organizer_name_fallback [of "[]"]
    organizer_name_fallback [of "[(lit ''organizerName'', JStr (lit ''Ada'')),
                               (lit ''sourceName'', JStr (lit ''Foo''))]"]
  by (simp add: absent_def)


section \<open>The guards of the handlers\<close>

lemma calendarId_falsy:
  "\<not> truthy (ownprop (JObj (query req)) ''calendarId'') \<Longrightarrow>
   api_google_calendar rt w env req =
     \<lparr> calls = [], outcome = Responded 400 (ErrorBody (lit ''calendarId required'') None) \<rparr>"
  by (simp add: api_google_calendar_def Let_def)

text \<open>
  Claim C6. For every request to \<^verbatim>\<open>/api/google-calendar\<close> whose query has no
  \<open>calendarId\<close>, the response has status 400 and body
  \<^verbatim>\<open>{error: "calendarId required"}\<close>, and no outbound call is made.
\<close>

theorem missing_calendarId:
  "absent (query req) ''calendarId'' \<Longrightarrow>
   api_google_calendar rt w env req =
     \<lparr> calls = [], outcome = Responded 400 (ErrorBody (lit ''calendarId required'') None) \<rparr>"
  by (rule calendarId_falsy) (simp add: absent_def)

theorem missing_calendarId_witness:
  "absent (query \<lparr> query = [(lit ''q'', JStr (lit ''jazz''))] \<rparr>) ''calendarId''
   \<and> api_google_calendar sample_runtime sample_world
         \<lparr> env_EVENTBRITE_TOKEN = None, env_GOOGLE_API_KEY = Some (lit ''key'') \<rparr>
         \<lparr> query = [(lit ''q'', JStr (lit ''jazz''))] \<rparr>
       = \<lparr> calls = [], outcome = Responded 400 (ErrorBody (lit ''calendarId required'') None) \<rparr>"
proof -
  have h: "absent (query \<lparr> query = [(lit ''q'', JStr (lit ''jazz''))] \<rparr>) ''calendarId''"
    by (simp add: absent_def)
  show ?thesis
    using h missing_calendarId [OF h] by simp
qed

text \<open>
  Claim C7. For every request to \<^verbatim>\<open>/api/eventbrite\<close> made while
  \<open>EVENTBRITE_TOKEN\<close> is unset, the handler responds (it does not crash) with status
  500 and body \<^verbatim>\<open>{error: "Missing EVENTBRITE_TOKEN env var"}\<close>, before any outbound
  call.
\<close>

theorem missing_token:
  "env_EVENTBRITE_TOKEN env = None \<Longrightarrow>
   api_eventbrite rt w env req =
     \<lparr> calls = [],
       outcome = Responded 500 (ErrorBody (lit ''Missing EVENTBRITE_TOKEN env var'') None) \<rparr>"
  by (simp add: api_eventbrite_def EVENTBRITE_TOKEN_def)

theorem missing_token_witness:
  "env_EVENTBRITE_TOKEN \<lparr> env_EVENTBRITE_TOKEN = None, env_GOOGLE_API_KEY = None \<rparr> = None
   \<and> api_eventbrite sample_runtime sample_world
         \<lparr> env_EVENTBRITE_TOKEN = None, env_GOOGLE_API_KEY = None \<rparr>
         \<lparr> query = [(lit ''q'', JStr (lit ''jazz''))] \<rparr>
       = \<lparr> calls = [],
           outcome = Responded 500 (ErrorBody (lit ''Missing EVENTBRITE_TOKEN env var'') None) \<rparr>"
  using missing_token [of "\<lparr> env_EVENTBRITE_TOKEN = None, env_GOOGLE_API_KEY = None \<rparr>"
      sample_runtime sample_world "\<lparr> query = [(lit ''q'', JStr (lit ''jazz''))] \<rparr>"]
  by simp

text \<open>
  Claim C10. While \<open>GOOGLE_API_KEY\<close> is unset, a request to
  \<^verbatim>\<open>/api/google-calendar\<close> without \<open>calendarId\<close> gets the 400 response
  \<^verbatim>\<open>{error: "calendarId required"}\<close> and not the 500 configuration error: the
  parameter is checked before the credential, whose 500 response is reached only
  when a \<open>calendarId\<close> is supplied.
\<close>

theorem calendarId_before_key:
  "env_GOOGLE_API_KEY env = None \<Longrightarrow>
   (absent (query req) ''calendarId'' \<longrightarrow>
      api_google_calendar rt w env req =
        \<lparr> calls = [], outcome = Responded 400 (ErrorBody (lit ''calendarId required'') None) \<rparr>)
   \<and> (truthy (ownprop (JObj (query req)) ''calendarId'') \<longrightarrow>
      api_google_calendar rt w env req =
        \<lparr> calls = [],
          outcome = Responded 500 (ErrorBody (lit ''Missing GOOGLE_API_KEY env var'') None) \<rparr>)
   \<and> Responded 400 (ErrorBody (lit ''calendarId required'') None)
       \<noteq> Responded 500 (ErrorBody (lit ''Missing GOOGLE_API_KEY env var'') None)"
  by (simp add: calendarId_falsy absent_def)
     (simp add: api_google_calendar_def GOOGLE_API_KEY_def Let_def)

theorem calendarId_before_key_witness:
  "env_GOOGLE_API_KEY \<lparr> env_EVENTBRITE_TOKEN = None, env_GOOGLE_API_KEY = None \<rparr> = None
   \<and> absent (query \<lparr> query = [] \<rparr>) ''calendarId''
   \<and> api_google_calendar sample_runtime sample_world
        \<lparr> env_EVENTBRITE_TOKEN = None, env_GOOGLE_API_KEY = None \<rparr> \<lparr> query = [] \<rparr>
      = \<lparr> calls = [], outcome = Responded 400 (ErrorBody (lit ''calendarId required'') None) \<rparr>
   \<and> truthy (ownprop (JObj (query \<lparr> query = [(lit ''calendarId'', JStr (lit ''abc''))] \<rparr>))
        ''calendarId'')
   \<and> api_google_calendar sample_runtime sample_world
        \<lparr> env_EVENTBRITE_TOKEN = None, env_GOOGLE_API_KEY = None \<rparr>
        \<lparr> query = [(lit ''calendarId'', JStr (lit ''abc''))] \<rparr>
      = \<lparr> calls = [],
          outcome = Responded 500 (ErrorBody (lit ''Missing GOOGLE_API_KEY env var'') None) \<rparr>"
  using calendarId_before_key [of "\<lparr> env_EVENTBRITE_TOKEN = None, env_GOOGLE_API_KEY = None \<rparr>"
      "\<lparr> query = [] \<rparr>" sample_runtime sample_world]
    calendarId_before_key [of "\<lparr> env_EVENTBRITE_TOKEN = None, env_GOOGLE_API_KEY = None \<rparr>"
      "\<lparr> query = [(lit ''calendarId'', JStr (lit ''abc''))] \<rparr>" sample_runtime sample_world]
  by (simp add: absent_def)


section \<open>The adapters\<close>

text \<open>
  What a successful run of each adapter says about its input: the id was converted
  to a string and prefixed, and the fields went through the normalizer.
\<close>

lemma eventbrite_adapter_Inr:
  assumes "eventbrite_adapter rt ev = Inr e"
  shows "\<exists>idText. ToString rt (ownprop ev ''id'') = Inr idText
           \<and> ev_id e = JStr (lit ''eventbrite_'' @ idText)"
    and "ev_start e = lor (lor (optprop (ownprop ev ''start'') ''utc'')
                               (optprop (ownprop ev ''start'') ''local'')) (JStr (lit ''''))"
    and "ev_end e = lor (lor (optprop (ownprop ev ''end'') ''utc'')
                             (optprop (ownprop ev ''end'') ''local'')) (JStr (lit ''''))"
    and "\<not> nullish ev"
  using assms
  by (auto simp: eventbrite_adapter_def getprop_def normalizeEvent_obj
      split: if_splits sum.splits)

lemma eventbrite_adapter_total:
  assumes "\<not> nullish ev" and "ToString rt (ownprop ev ''id'') = Inr idText"
  shows "\<exists>e. eventbrite_adapter rt ev = Inr e"
  using assms by (simp add: eventbrite_adapter_def getprop_def normalizeEvent_obj)

lemma gcal_adapter_Inr:
  assumes "gcal_adapter rt it = Inr e"
  shows "\<exists>idText. ToString rt (ownprop it ''id'') = Inr idText
           \<and> ev_id e = JStr (lit ''gcal_'' @ idText)"
  using assms
  by (auto simp: gcal_adapter_def getprop_def normalizeEvent_obj
      split: if_splits sum.splits)

lemma ics_adapter_Inr:
  assumes "ics_adapter rt ev = Inr e"
  shows "\<exists>idText. toString rt (lor (lor (ownprop ev ''uid'') (ownprop ev ''summary''))
                                   (JStr (lit ''''))) = Inr idText
           \<and> ev_id e = JStr (lit ''ics_'' @ take 40 idText)"
  using assms
  by (auto simp: ics_adapter_def normalizeEvent_obj split: if_splits sum.splits)


lemma lit_prefix_neq:
  "p \<noteq> [] \<Longrightarrow> q \<noteq> [] \<Longrightarrow> hd p \<noteq> hd q \<Longrightarrow> lit p @ s \<noteq> lit q @ t"
  by (cases p; cases q) (auto simp: lit_Cons unit_of_char_eq)

lemma prefixed_ids_differ:
  assumes "\<exists>s. x = JStr (lit p @ s)" and "\<exists>t. y = JStr (lit q @ t)"
    and "p \<noteq> []" and "q \<noteq> []" and "hd p \<noteq> hd q"
  shows "x \<noteq> y"
proof -
  from assms(1) obtain s where s: "x = JStr (lit p @ s)" by blast
  from assms(2) obtain t where t: "y = JStr (lit q @ t)" by blast
  show ?thesis
    unfolding s t using lit_prefix_neq [OF assms(3-5), of s t] by simp
qed

text \<open>
  Claim C4. Every canonical event that one of the three adapters produces from a raw
  record has an id that is a non-empty string and begins with the adapter's own
  prefix, \<^verbatim>\<open>eventbrite_\<close>, \<^verbatim>\<open>gcal_\<close> or \<^verbatim>\<open>ics_\<close>; hence the ids of two
  events produced by different adapters are never equal.
\<close>

theorem adapter_id_prefix:
  "(eventbrite_adapter rt a = Inr ea \<longrightarrow>
      nonempty_string (ev_id ea) \<and> starts_with ''eventbrite_'' (ev_id ea))
   \<and> (gcal_adapter rt b = Inr eb \<longrightarrow>
      nonempty_string (ev_id eb) \<and> starts_with ''gcal_'' (ev_id eb))
   \<and> (ics_adapter rt c = Inr ec \<longrightarrow>
      nonempty_string (ev_id ec) \<and> starts_with ''ics_'' (ev_id ec))
   \<and> (eventbrite_adapter rt a = Inr ea \<and> gcal_adapter rt b = Inr eb \<longrightarrow> ev_id ea \<noteq> ev_id eb)
   \<and> (eventbrite_adapter rt a = Inr ea \<and> ics_adapter rt c = Inr ec \<longrightarrow> ev_id ea \<noteq> ev_id ec)
   \<and> (gcal_adapter rt b = Inr eb \<and> ics_adapter rt c = Inr ec \<longrightarrow> ev_id eb \<noteq> ev_id ec)"
proof -
  have pre: "nonempty_string (JStr (lit p @ s)) \<and> starts_with p (JStr (lit p @ s))"
    if "p \<noteq> []" for p s
    using that by (simp add: nonempty_string_def starts_with_def)
  have A: "nonempty_string (ev_id ea) \<and> starts_with ''eventbrite_'' (ev_id ea)"
    if "eventbrite_adapter rt a = Inr ea"
    using eventbrite_adapter_Inr(1) [OF that] pre [of "''eventbrite_''"] by auto
  have B: "nonempty_string (ev_id eb) \<and> starts_with ''gcal_'' (ev_id eb)"
    if "gcal_adapter rt b = Inr eb"
    using gcal_adapter_Inr [OF that] pre [of "''gcal_''"] by auto
  have C: "nonempty_string (ev_id ec) \<and> starts_with ''ics_'' (ev_id ec)"
    if "ics_adapter rt c = Inr ec"
    using ics_adapter_Inr [OF that] pre [of "''ics_''"] by auto
  have AB: "ev_id ea \<noteq> ev_id eb"
    if "eventbrite_adapter rt a = Inr ea" "gcal_adapter rt b = Inr eb"
    by (rule prefixed_ids_differ [of _ "''eventbrite_''" _ "''gcal_''"])
       (use eventbrite_adapter_Inr(1) [OF that(1)] gcal_adapter_Inr [OF that(2)] in auto)
  have AC: "ev_id ea \<noteq> ev_id ec"
    if "eventbrite_adapter rt a = Inr ea" "ics_adapter rt c = Inr ec"
    by (rule prefixed_ids_differ [of _ "''eventbrite_''" _ "''ics_''"])
       (use eventbrite_adapter_Inr(1) [OF that(1)] ics_adapter_Inr [OF that(2)] in auto)
  have BC: "ev_id eb \<noteq> ev_id ec"
    if "gcal_adapter rt b = Inr eb" "ics_adapter rt c = Inr ec"
    by (rule prefixed_ids_differ [of _ "''gcal_''" _ "''ics_''"])
       (use gcal_adapter_Inr [OF that(1)] ics_adapter_Inr [OF that(2)] in auto)
  show ?thesis
    using A B C AB AC BC by blast
qed

theorem adapter_id_prefix_witness:
  "\<exists>ea eb ec.
     eventbrite_adapter sample_runtime (JObj [(lit ''id'', JStr (lit ''123''))]) = Inr ea
     \<and> gcal_adapter sample_runtime (JObj [(lit ''id'', JStr (lit ''123''))]) = Inr eb
     \<and> ics_adapter sample_runtime (JObj [(lit ''uid'', JStr (lit ''123''))]) = Inr ec
     \<and> ev_id ea = JStr (lit ''eventbrite_123'')
     \<and> ev_id eb = JStr (lit ''gcal_123'')
     \<and> ev_id ec = JStr (lit ''ics_123'')
     \<and> nonempty_string (ev_id ea) \<and> starts_with ''eventbrite_'' (ev_id ea)
     \<and> nonempty_string (ev_id eb) \<and> starts_with ''gcal_'' (ev_id eb)
     \<and> nonempty_string (ev_id ec) \<and> starts_with ''ics_'' (ev_id ec)
     \<and> ev_id ea \<noteq> ev_id eb \<and> ev_id ea \<noteq> ev_id ec \<and> ev_id eb \<noteq> ev_id ec"
proof -
  obtain ea where ea:
    "eventbrite_adapter sample_runtime (JObj [(lit ''id'', JStr (lit ''123''))]) = Inr ea"
    by (simp add: eventbrite_adapter_def getprop_def nullish_def normalizeEvent_obj)
  obtain eb where eb:
    "gcal_adapter sample_runtime (JObj [(lit ''id'', JStr (lit ''123''))]) = Inr eb"
    by (simp add: gcal_adapter_def getprop_def nullish_def normalizeEvent_obj)
  obtain ec where ec:
    "ics_adapter sample_runtime (JObj [(lit ''uid'', JStr (lit ''123''))]) = Inr ec"
    by (simp add: ics_adapter_def toString_def lor_def nullish_def normalizeEvent_obj)
  have ia: "ev_id ea = JStr (lit ''eventbrite_123'')"
    using eventbrite_adapter_Inr(1) [OF ea] by (auto simp: lit_def)
  have ib: "ev_id eb = JStr (lit ''gcal_123'')"
    using gcal_adapter_Inr [OF eb] by (auto simp: lit_def)
  have ic: "ev_id ec = JStr (lit ''ics_123'')"
    using ics_adapter_Inr [OF ec] by (auto simp: lit_def toString_def lor_def nullish_def)
  show ?thesis
    using adapter_id_prefix [of sample_runtime "JObj [(lit ''id'', JStr (lit ''123''))]" ea
        "JObj [(lit ''id'', JStr (lit ''123''))]" eb
        "JObj [(lit ''uid'', JStr (lit ''123''))]" ec] ea eb ec ia ib ic
    by blast
qed


text \<open>
  Claim C5. For every Eventbrite raw record (a value with properties whose id has a
  string conversion) the adapter produces an event. When the UTC start is present
  (truthy: for a string, non-empty) the normalized start is the UTC value, also when
  the local start is present too; when the UTC start is absent or falsy and the local
  start is present, the normalized start is the local value; when neither is present
  it is the normalizer's empty string. The same holds for \<open>end\<close>.
\<close>

theorem eventbrite_timestamps:
  assumes "\<not> nullish ev" and "ToString rt (ownprop ev ''id'') = Inr idText"
  shows "\<exists>e. eventbrite_adapter rt ev = Inr e
    \<and> (truthy (optprop (ownprop ev ''start'') ''utc'')
          \<longrightarrow> ev_start e = optprop (ownprop ev ''start'') ''utc'')
    \<and> (\<not> truthy (optprop (ownprop ev ''start'') ''utc'')
        \<and> truthy (optprop (ownprop ev ''start'') ''local'')
          \<longrightarrow> ev_start e = optprop (ownprop ev ''start'') ''local'')
    \<and> (\<not> truthy (optprop (ownprop ev ''start'') ''utc'')
        \<and> \<not> truthy (optprop (ownprop ev ''start'') ''local'')
          \<longrightarrow> ev_start e = JStr (lit ''''))
    \<and> (truthy (optprop (ownprop ev ''end'') ''utc'')
          \<longrightarrow> ev_end e = optprop (ownprop ev ''end'') ''utc'')
    \<and> (\<not> truthy (optprop (ownprop ev ''end'') ''utc'')
        \<and> truthy (optprop (ownprop ev ''end'') ''local'')
          \<longrightarrow> ev_end e = optprop (ownprop ev ''end'') ''local'')
    \<and> (\<not> truthy (optprop (ownprop ev ''end'') ''utc'')
        \<and> \<not> truthy (optprop (ownprop ev ''end'') ''local'')
          \<longrightarrow> ev_end e = JStr (lit ''''))"
proof -
  from eventbrite_adapter_total [OF assms]
  obtain e where e: "eventbrite_adapter rt ev = Inr e" by blast
  note s = eventbrite_adapter_Inr(2) [OF e] and t = eventbrite_adapter_Inr(3) [OF e]
  show ?thesis
    apply (rule exI [of _ e])
    apply (intro conjI impI)
    apply (simp_all only: e s t)
    apply (simp_all add: lor_def)
    done
qed

theorem eventbrite_timestamps_witness:
  "\<not> nullish sample_eventbrite_record
   \<and> ToString sample_runtime (ownprop sample_eventbrite_record ''id'') = Inr (lit ''123'')
   \<and> truthy (optprop (ownprop sample_eventbrite_record ''start'') ''utc'')
   \<and> truthy (optprop (ownprop sample_eventbrite_record ''start'') ''local'')
   \<and> \<not> truthy (optprop (ownprop sample_eventbrite_record ''end'') ''utc'')
   \<and> truthy (optprop (ownprop sample_eventbrite_record ''end'') ''local'')
   \<and> (\<exists>e. eventbrite_adapter sample_runtime sample_eventbrite_record = Inr e
         \<and> ev_start e = JStr (lit ''2026-01-01T10:00:00Z'')
         \<and> ev_end e = JStr (lit ''2026-01-01T13:00:00''))"
proof -
  have a: "\<not> nullish sample_eventbrite_record"
    by (simp add: sample_eventbrite_record_def nullish_def)
  have b: "ToString sample_runtime (ownprop sample_eventbrite_record ''id'') = Inr (lit ''123'')"
    by (simp add: sample_eventbrite_record_def)
  have c: "optprop (ownprop sample_eventbrite_record ''start'') ''utc''
             = JStr (lit ''2026-01-01T10:00:00Z'')"
    "optprop (ownprop sample_eventbrite_record ''start'') ''local''
             = JStr (lit ''2026-01-01T11:00:00'')"
    "optprop (ownprop sample_eventbrite_record ''end'') ''utc'' = JUndefined"
    "optprop (ownprop sample_eventbrite_record ''end'') ''local''
             = JStr (lit ''2026-01-01T13:00:00'')"
    by (simp_all add: sample_eventbrite_record_def optprop_def nullish_def)
  show ?thesis
    using eventbrite_timestamps [OF a b] a b
    by (simp add: c)
qed

text \<open>
  Claim C8. For every component from which the ICS adapter produces an event, the id
  is \<^verbatim>\<open>ics_\<close> followed by the first 40 code units of the string conversion of
  \<^verbatim>\<open>uid || summary || ''\<close>: of the uid when it is a non-empty string, else of the
  summary when that is a non-empty string, and nothing when both are falsy. A uid
  longer than 40 code units contributes exactly its first 40.
\<close>

theorem ics_id_truncation:
  assumes "ics_adapter rt ev = Inr e"
  shows "(\<exists>t. toString rt (lor (lor (ownprop ev ''uid'') (ownprop ev ''summary''))
                               (JStr (lit ''''))) = Inr t
              \<and> ev_id e = JStr (lit ''ics_'' @ take 40 t))
    \<and> (\<forall>u. ownprop ev ''uid'' = JStr u \<and> u \<noteq> []
           \<longrightarrow> ev_id e = JStr (lit ''ics_'' @ take 40 u))
    \<and> (\<forall>s. \<not> truthy (ownprop ev ''uid'') \<and> ownprop ev ''summary'' = JStr s \<and> s \<noteq> []
           \<longrightarrow> ev_id e = JStr (lit ''ics_'' @ take 40 s))
    \<and> (\<not> truthy (ownprop ev ''uid'') \<and> \<not> truthy (ownprop ev ''summary'')
           \<longrightarrow> ev_id e = JStr (lit ''ics_''))
    \<and> (\<forall>u. ownprop ev ''uid'' = JStr u \<and> 40 < length u
           \<longrightarrow> (\<exists>suffix. ev_id e = JStr (lit ''ics_'' @ suffix)
                  \<and> length suffix = 40 \<and> suffix = take 40 u))"
proof -
  from ics_adapter_Inr [OF assms] obtain t
    where t: "toString rt (lor (lor (ownprop ev ''uid'') (ownprop ev ''summary''))
                               (JStr (lit ''''))) = Inr t"
      and i: "ev_id e = JStr (lit ''ics_'' @ take 40 t)"
    by blast
  have u: "ev_id e = JStr (lit ''ics_'' @ take 40 u)"
    if "ownprop ev ''uid'' = JStr u" "u \<noteq> []" for u
    using t i that by (simp add: lor_def toString_def nullish_def)
  have s: "ev_id e = JStr (lit ''ics_'' @ take 40 s)"
    if "\<not> truthy (ownprop ev ''uid'')" "ownprop ev ''summary'' = JStr s" "s \<noteq> []" for s
    using t i that by (simp add: lor_def toString_def nullish_def)
  have n: "ev_id e = JStr (lit ''ics_'')"
    if "\<not> truthy (ownprop ev ''uid'')" "\<not> truthy (ownprop ev ''summary'')"
    using t i that by (auto simp: lor_def toString_def nullish_def)
  have l: "\<exists>suffix. ev_id e = JStr (lit ''ics_'' @ suffix)
                  \<and> length suffix = 40 \<and> suffix = take 40 u"
    if "ownprop ev ''uid'' = JStr u" "40 < length u" for u
  proof -
    from that(2) have "u \<noteq> []" by auto
    from u [OF that(1) this] that(2) show ?thesis by simp
  qed
  show ?thesis
    using t i u s n l by blast
qed

theorem ics_id_truncation_witness:
  "\<exists>e. ics_adapter sample_runtime sample_ics_component = Inr e
     \<and> ev_id e = JStr (lit ''ics_0123456789012345678901234567890123456789'')"
proof -
  obtain e where e: "ics_adapter sample_runtime sample_ics_component = Inr e"
    by (simp add: ics_adapter_def sample_ics_component_def toString_def lor_def nullish_def
        normalizeEvent_obj)
  have u: "ownprop sample_ics_component ''uid''
      = JStr (lit ''0123456789012345678901234567890123456789-tail@example.org'')"
    by (simp add: sample_ics_component_def)
  have "ev_id e = JStr (lit ''ics_''
      @ take 40 (lit ''0123456789012345678901234567890123456789-tail@example.org''))"
    using ics_id_truncation [OF e] u by simp
  then show ?thesis
    using e by (simp add: lit_def)
qed


section \<open>The ICS endpoint\<close>

lemma toISOString_Inr: "(\<exists>s. toISOString rt v = Inr s) \<longleftrightarrow> (\<exists>t. v = JDate (Some t))"
  by (cases "(rt, v)" rule: toISOString.cases) auto

lemma date_or_falsy_iff:
  "date_or_falsy v \<longleftrightarrow>
     (\<exists>s. (if truthy v then toISOString rt v else Inr (lit '''')) = Inr s)"
  unfolding date_or_falsy_def
  by (cases "(rt, v)" rule: toISOString.cases) (auto split: jsval.splits option.splits)

lemma ics_adapter_convertible:
  "(\<exists>e. ics_adapter rt ev = Inr e) \<longleftrightarrow> ics_convertible rt ev"
  unfolding ics_convertible_def date_or_falsy_iff [of _ rt] has_text_def
  by (auto simp: ics_adapter_def normalizeEvent_obj split: sum.splits)

lemma Array_map_Inr_D:
  "Array_map f xs = Inr ys \<Longrightarrow> list_all2 (\<lambda>x y. f x = Inr y) xs ys"
  by (induction xs arbitrary: ys) (auto split: sum.splits)

lemma Array_map_Inr_I:
  "list_all2 (\<lambda>x y. f x = Inr y) xs ys \<Longrightarrow> Array_map f xs = Inr ys"
  by (induction rule: list_all2_induct) auto

lemma Array_map_Inl:
  "Array_map f xs = Inl e \<Longrightarrow> \<exists>x \<in> set xs. f x = Inl e"
  by (induction xs) (auto split: sum.splits)

lemma Array_map_total:
  "(\<And>x. x \<in> set xs \<Longrightarrow> \<exists>y. f x = Inr y) \<Longrightarrow> \<exists>ys. Array_map f xs = Inr ys"
proof (induction xs)
  case Nil
  then show ?case by simp
next
  case (Cons x xs)
  then obtain y where y: "f x = Inr y" by auto
  from Cons obtain ys where ys: "Array_map f xs = Inr ys" by auto
  show ?case by (simp add: y ys)
qed

lemma ics_loop_eq:
  "ics_loop rt parsed ks acc =
     (case Array_map (ics_adapter rt)
             (filter is_VEVENT
                (map (\<lambda>k. case map_of parsed k of None \<Rightarrow> JUndefined | Some v \<Rightarrow> v) ks)) of
        Inl e \<Rightarrow> Inl e
      | Inr ys \<Rightarrow> Inr (acc @ ys))"
  by (induction ks arbitrary: acc) (auto simp: Let_def split: sum.splits)

lemma lookup_keys:
  assumes "distinct (map fst ps)"
  shows "map (\<lambda>k. case map_of ps k of None \<Rightarrow> JUndefined | Some v \<Rightarrow> v) (map fst ps)
           = map snd ps"
proof -
  have "(case map_of ps (fst p) of None \<Rightarrow> JUndefined | Some v \<Rightarrow> v) = snd p"
    if "p \<in> set ps" for p
  proof -
    from that have "(fst p, snd p) \<in> set ps" by simp
    from map_of_is_SomeI [OF assms this] show ?thesis by simp
  qed
  then show ?thesis by (simp add: comp_def)
qed

lemma ics_events_eq:
  assumes "distinct (map fst parsed)"
  shows "ics_events rt parsed
           = Array_map (ics_adapter rt) (filter is_VEVENT (components parsed))"
proof -
  have "ics_events rt parsed =
     (case Array_map (ics_adapter rt) (filter is_VEVENT (map snd parsed)) of
        Inl e \<Rightarrow> Inl e
      | Inr ys \<Rightarrow> Inr ([] @ ys))"
    unfolding ics_events_def ics_loop_eq lookup_keys [OF assms] ..
  then show ?thesis
    by (simp add: components_def split: sum.splits)
qed


lemma list_all2_left_ex:
  "list_all2 P xs ys \<Longrightarrow> x \<in> set xs \<Longrightarrow> \<exists>y. P x y"
  by (induction rule: list_all2_induct) auto

lemma api_fetch_ics_parsed:
  assumes "truthy (ownprop (JObj (query req)) ''url'')"
    and "ical_fromURL w (ownprop (JObj (query req)) ''url'') = Inr parsed"
  shows "api_fetch_ics rt w req =
     \<lparr> calls = [IcalFromURL (ownprop (JObj (query req)) ''url'')],
       outcome =
         (case ics_events rt parsed of
            Inl err \<Rightarrow> Responded 500 (ErrorBody (lit ''Failed to fetch/parse ICS'') (Some err))
          | Inr events \<Rightarrow> Responded 200 (EventsBody events)) \<rparr>"
  using assms by (simp add: api_fetch_ics_def Let_def)

lemma filter_sample_ics_document:
  "filter is_VEVENT (components sample_ics_document) = [sample_vevent]"
  by (simp add: components_def sample_ics_document_def sample_vevent_def is_VEVENT_def)

lemma filter_unparsed_start_document:
  "filter is_VEVENT (components unparsed_start_document) = [unparsed_start_vevent]"
  by (simp add: components_def unparsed_start_document_def unparsed_start_vevent_def
      is_VEVENT_def)

text \<open>
  Claim C9, as the code has it. For every parsed document (an object with distinct
  keys) that the fetch of the requested url yields: when every component of type
  \<^verbatim>\<open>VEVENT\<close> is convertible, the endpoint responds 200 with exactly one canonical
  event per such component, each the adapter's image of its component, and nothing
  for the components of any other type (the events are listed as
  \<^verbatim>\<open>Object.keys(parsed)\<close> lists the components, which is the order of the loop
  and need not be the order of the feed); when some
  \<^verbatim>\<open>VEVENT\<close> component is not convertible, the adapter throws inside the
  \<^verbatim>\<open>try\<close> block and the endpoint responds 500 with
  \<^verbatim>\<open>{error: "Failed to fetch/parse ICS", details}\<close>, emitting no event.
\<close>

theorem ics_one_event_per_vevent:
  assumes "distinct (map fst parsed)"
    and "truthy (ownprop (JObj (query req)) ''url'')"
    and "ical_fromURL w (ownprop (JObj (query req)) ''url'') = Inr parsed"
  shows "(list_all (ics_convertible rt) (filter is_VEVENT (components parsed)) \<longrightarrow>
            (\<exists>events.
               outcome (api_fetch_ics rt w req) = Responded 200 (EventsBody events)
               \<and> list_all2 (\<lambda>c e. ics_adapter rt c = Inr e)
                    (filter is_VEVENT (components parsed)) events
               \<and> length events = length (filter is_VEVENT (components parsed))))
       \<and> (\<not> list_all (ics_convertible rt) (filter is_VEVENT (components parsed)) \<longrightarrow>
            (\<exists>err. outcome (api_fetch_ics rt w req)
               = Responded 500 (ErrorBody (lit ''Failed to fetch/parse ICS'') (Some err))))"
proof (intro conjI impI)
  let ?cs = "filter is_VEVENT (components parsed)"
  note out = api_fetch_ics_parsed [OF assms(2,3), of rt]
  note ev = ics_events_eq [OF assms(1), of rt]
  {
    assume all: "list_all (ics_convertible rt) ?cs"
    have "\<exists>e. ics_adapter rt c = Inr e" if "c \<in> set ?cs" for c
      using all that unfolding ics_adapter_convertible list_all_iff by blast
    from Array_map_total [of ?cs "ics_adapter rt", OF this]
    obtain events where events: "Array_map (ics_adapter rt) ?cs = Inr events" by blast
    have l2: "list_all2 (\<lambda>c e. ics_adapter rt c = Inr e) ?cs events"
      by (rule Array_map_Inr_D [OF events])
    have "outcome (api_fetch_ics rt w req) = Responded 200 (EventsBody events)"
      by (simp add: out ev events)
    with l2 list_all2_lengthD [OF l2]
    show "\<exists>events.
               outcome (api_fetch_ics rt w req) = Responded 200 (EventsBody events)
               \<and> list_all2 (\<lambda>c e. ics_adapter rt c = Inr e) ?cs events
               \<and> length events = length ?cs"
      by auto
  }
  {
    assume some: "\<not> list_all (ics_convertible rt) ?cs"
    then obtain c where c: "c \<in> set ?cs" "\<not> ics_convertible rt c"
      unfolding list_all_iff by blast
    have "Array_map (ics_adapter rt) ?cs \<noteq> Inr events" for events
    proof
      assume "Array_map (ics_adapter rt) ?cs = Inr events"
      from list_all2_left_ex [OF Array_map_Inr_D [OF this] c(1)]
      have "\<exists>e. ics_adapter rt c = Inr e" .
      with c(2) show False
        unfolding ics_adapter_convertible by simp
    qed
    then obtain err where "Array_map (ics_adapter rt) ?cs = Inl err"
      by (cases "Array_map (ics_adapter rt) ?cs") auto
    then have "outcome (api_fetch_ics rt w req)
        = Responded 500 (ErrorBody (lit ''Failed to fetch/parse ICS'') (Some err))"
      by (simp add: out ev)
    then show "\<exists>err. outcome (api_fetch_ics rt w req)
        = Responded 500 (ErrorBody (lit ''Failed to fetch/parse ICS'') (Some err))"
      by blast
  }
qed

theorem ics_one_event_per_vevent_witness:
  "distinct (map fst sample_ics_document)
   \<and> truthy (ownprop (JObj (query sample_ics_request)) ''url'')
   \<and> ical_fromURL (world_serving sample_ics_document)
        (ownprop (JObj (query sample_ics_request)) ''url'') = Inr sample_ics_document
   \<and> list_all (ics_convertible sample_runtime)
        (filter is_VEVENT (components sample_ics_document))
   \<and> length (components sample_ics_document) = 2
   \<and> (\<exists>e. outcome (api_fetch_ics sample_runtime (world_serving sample_ics_document)
                     sample_ics_request) = Responded 200 (EventsBody [e])
         \<and> ics_adapter sample_runtime sample_vevent = Inr e)"
proof -
  have a: "distinct (map fst sample_ics_document)"
    by (simp add: sample_ics_document_def)
  have b: "truthy (ownprop (JObj (query sample_ics_request)) ''url'')"
    by (simp add: sample_ics_request_def)
  have c: "ical_fromURL (world_serving sample_ics_document)
        (ownprop (JObj (query sample_ics_request)) ''url'') = Inr sample_ics_document"
    by (simp add: world_serving_def)
  have d: "list_all (ics_convertible sample_runtime)
        (filter is_VEVENT (components sample_ics_document))"
    unfolding filter_sample_ics_document
    by (simp add: ics_convertible_def has_text_def toString_def nullish_def lor_def
        date_or_falsy_def sample_vevent_def)
  have n: "length (components sample_ics_document) = 2"
    by (simp add: components_def sample_ics_document_def)
  from ics_one_event_per_vevent [OF a b c, of sample_runtime] d
  obtain events where
    o: "outcome (api_fetch_ics sample_runtime (world_serving sample_ics_document)
          sample_ics_request) = Responded 200 (EventsBody events)"
    and l: "list_all2 (\<lambda>c e. ics_adapter sample_runtime c = Inr e)
              (filter is_VEVENT (components sample_ics_document)) events"
    by blast
  from l obtain e where "events = [e]" "ics_adapter sample_runtime sample_vevent = Inr e"
    unfolding filter_sample_ics_document by (auto simp: list_all2_Cons1)
  with a b c d n o show ?thesis by blast
qed

text \<open>
  Claim C9 as stated, one canonical event per event component for every parsed
  document, fails on a document with one timezone component and one event component
  whose \<open>start\<close> is a string: \<^verbatim>\<open>ev.start.toISOString()\<close> throws a \<open>TypeError\<close>
  and the response is the 500 error, with no event for the one event component.
\<close>

theorem ics_unparsed_start_counterexample:
  "length (filter is_VEVENT (components unparsed_start_document)) = 1
   \<and> api_fetch_ics sample_runtime (world_serving unparsed_start_document) sample_ics_request
       = \<lparr> calls = [IcalFromURL (JStr (lit ''https://example.org/feed.ics''))],
           outcome = Responded 500
             (ErrorBody (lit ''Failed to fetch/parse ICS'') (Some TypeError)) \<rparr>"
proof -
  have a: "ics_adapter sample_runtime unparsed_start_vevent = Inl TypeError"
    by (simp add: ics_adapter_def unparsed_start_vevent_def toString_def nullish_def lor_def)
  have d: "distinct (map fst unparsed_start_document)"
    by (simp add: unparsed_start_document_def)
  have e: "ics_events sample_runtime unparsed_start_document = Inl TypeError"
    unfolding ics_events_eq [OF d] filter_unparsed_start_document by (simp add: a)
  show ?thesis
    by (simp add: filter_unparsed_start_document api_fetch_ics_def Let_def
        sample_ics_request_def world_serving_def e)
qed


end
